theory Spec2Isabelle
  imports Main "HOL-Library.Word" "HOL-Library.Sublist"
begin

unbundle bit_operations_syntax

section \<open>Device-tree helpers of core/kernel/dt.c\<close>

text \<open>
  The file binds device-tree nodes to compiled-in drivers (\<open>dt_find_compatible_driver\<close>),
  resolves a node's status bits (\<open>_fdt_get_status\<close>), decodes its register window
  (\<open>_fdt_read_paddr\<close>, \<open>_fdt_reg_base_address\<close>, \<open>_fdt_reg_size\<close>) and maps it
  (\<open>dt_map_dev\<close>). The C names that start with an underscore lose it here, since an
  Isabelle name starts with a letter.
\<close>

subsection \<open>Ways in which a C function does not return\<close>

text \<open>
  \<open>Assertion_failed\<close> is a failed \<open>assert\<close>. \<open>Read_past_end\<close> is a read through a
  pointer that has left the array it points into (a property's data, a match table, a
  string): C gives such a read no meaning, so the model stops there instead of
  inventing a value.
\<close>

datatype abort = Assertion_failed | Read_past_end

subsection \<open>Platform-dependent integer types\<close>

text \<open>
  Modelled from the spec: the headers that declare \<open>paddr_t\<close>, \<open>vaddr_t\<close>, \<open>size_t\<close>
  and \<open>ssize_t\<close> are missing. The specification speaks of a platform whose native
  address width is 32 bits and of a 64-bit-addressed platform, and
  \<open>_fdt_read_paddr\<close> is compiled in two variants, selected by the macro \<open>ARM32\<close>.
  With \<open>ARM32\<close> the types \<open>paddr_t\<close>, \<open>vaddr_t\<close>, \<open>size_t\<close> and \<open>ssize_t\<close> are 32 bits
  wide, without it 64 bits. Values of the unsigned types are natural numbers below
  \<open>2 ^ word_bits\<close>; values of \<open>ssize_t\<close> and \<open>int\<close> are integers.
\<close>

datatype platform = ARM32 | ARM64

definition word_bits :: "platform \<Rightarrow> nat" where
  "word_bits plat = (case plat of ARM32 \<Rightarrow> 32 | ARM64 \<Rightarrow> 64)"

text \<open>The value \<open>(paddr_t)-1\<close>: all bits set.\<close>

definition paddr_minus_1 :: "platform \<Rightarrow> nat" where
  "paddr_minus_1 plat = 2 ^ word_bits plat - 1"

text \<open>
  Conversion of a \<open>paddr_t\<close> to \<open>ssize_t\<close> (\<open>return (paddr_t)-1\<close> in a function that
  returns \<open>ssize_t\<close>): same width, two's complement.
\<close>

definition ssize_of_paddr :: "platform \<Rightarrow> nat \<Rightarrow> int" where
  "ssize_of_paddr plat v =
     (if v < 2 ^ (word_bits plat - 1) then int v else int v - 2 ^ word_bits plat)"

text \<open>
  Conversion of a \<open>uint32_t\<close> to \<open>ssize_t\<close> (\<open>return sz\<close>): the 32-bit \<open>ssize_t\<close>
  reads the same bits as a signed number, the 64-bit one keeps the value.
\<close>

definition ssize_of_uint32 :: "platform \<Rightarrow> 32 word \<Rightarrow> int" where
  "ssize_of_uint32 plat w = (case plat of ARM32 \<Rightarrow> sint w | ARM64 \<Rightarrow> uint w)"

subsection \<open>The blob query service (libfdt), as seen from one node\<close>

text \<open>
  Every function of the file receives a blob \<open>fdt\<close> and a node offset \<open>offs\<close> and only
  asks libfdt about that node and its parent. A \<open>dt_node\<close> holds the answers:
  \<^item> \<open>fdt_parent_offset\<close>: the result of \<open>fdt_parent_offset(fdt, offs)\<close>, negative on error;
  \<^item> \<open>fdt_address_cells\<close>, \<open>fdt_size_cells\<close>: the results of
    \<open>fdt_address_cells(fdt, parent)\<close> and \<open>fdt_size_cells(fdt, parent)\<close>;
  \<^item> \<open>fdt_getprop_reg\<close>: \<open>fdt_getprop(fdt, offs, "reg", &len)\<close>, \<open>None\<close> for \<open>NULL\<close>,
    otherwise the property's cells, each already passed through \<open>fdt32_to_cpu\<close>;
  \<^item> \<open>fdt_getprop_status\<close>, \<open>fdt_getprop_secure_status\<close>: the same call for
    \<open>"status"\<close> and \<open>"secure-status"\<close>, \<open>None\<close> for \<open>NULL\<close>, otherwise the \<open>len\<close> stored
    bytes of the property;
  \<^item> \<open>fdt_node_check_compatible\<close>: the result of
    \<open>fdt_node_check_compatible(fdt, offs, compatible)\<close> for a \<open>compatible\<close> pointer
    (\<open>None\<close> for \<open>NULL\<close>); 0 means that the node is compatible.
\<close>

record dt_node =
  fdt_parent_offset :: int
  fdt_address_cells :: int
  fdt_size_cells :: int
  fdt_getprop_reg :: "32 word list option"
  fdt_getprop_status :: "string option"
  fdt_getprop_secure_status :: "string option"
  fdt_node_check_compatible :: "string option \<Rightarrow> int"

subsection \<open>The driver registry\<close>

text \<open>
  Modelled from the spec: the header \<open>kernel/dt.h\<close> with the two structures and the
  macro \<open>for_each_dt_driver\<close> is missing. The specification describes a driver
  descriptor as a name with an ordered list of compatibility patterns, and the
  registry as an ordered array of descriptors; the fields below are the ones that
  \<open>dt_find_compatible_driver\<close> reads.
  \<open>struct dt_device_match\<close> holds the pointer \<open>compatible\<close>; \<open>struct dt_driver\<close> holds
  a name and the pointer \<open>match_table\<close> to an array of matches: \<open>None\<close> is \<open>NULL\<close>,
  \<open>Some ms\<close> points to the first element of the array \<open>ms\<close> (every element of the
  array, a closing one with a \<open>NULL\<close> \<open>compatible\<close> included).
\<close>

record dt_device_match =
  compatible :: "string option"

record dt_driver =
  name :: string
  match_table :: "dt_device_match list option"

text \<open>
  The inner loop \<open>for (dm = drv->match_table; dm; dm++)\<close>. Its condition tests the
  pointer \<open>dm\<close> itself, so the loop ends without a match only when \<open>match_table\<close> is
  \<open>NULL\<close>: \<open>dm++\<close> never makes a pointer \<open>NULL\<close>. Once \<open>dm\<close> has passed the last
  element, \<open>dm->compatible\<close> reads past the end of the array.
\<close>

fun match_loop :: "(string option \<Rightarrow> int) \<Rightarrow> dt_device_match list option \<Rightarrow> abort + bool" where
  "match_loop chk None = Inr False"
| "match_loop chk (Some []) = Inl Read_past_end"
| "match_loop chk (Some (dm # rest)) =
     (if chk (compatible dm) = 0 then Inr True else match_loop chk (Some rest))"

text \<open>
  \<open>dt_find_compatible_driver\<close>: \<open>for_each_dt_driver(drv)\<close> walks the registry, the
  array of drivers between \<open>__dt_driver_start()\<close> and \<open>__dt_driver_end()\<close>, in order.
  \<open>Inr None\<close> is the result \<open>NULL\<close>.
\<close>

fun dt_find_compatible_driver :: "dt_driver list \<Rightarrow> dt_node \<Rightarrow> abort + dt_driver option" where
  "dt_find_compatible_driver [] node = Inr None"
| "dt_find_compatible_driver (drv # drvs) node =
     (case match_loop (fdt_node_check_compatible node) (match_table drv) of
        Inl a \<Rightarrow> Inl a
      | Inr True \<Rightarrow> Inr (Some drv)
      | Inr False \<Rightarrow> dt_find_compatible_driver drvs node)"

subsection \<open>Status\<close>

text \<open>
  \<open>strncmp(s1, s2, n)\<close> of the C library: compares at most \<open>n\<close> characters and stops
  after a NUL that both strings hold at the same place. The lists are the arrays the
  two pointers point into; a string literal is passed with its closing NUL.
\<close>

fun strncmp :: "string \<Rightarrow> string \<Rightarrow> nat \<Rightarrow> abort + int" where
  "strncmp s1 s2 0 = Inr 0"
| "strncmp (a # s1) (b # s2) (Suc n) =
     (if a \<noteq> b then Inr (int (of_char a) - int (of_char b))
      else if a = CHR 0x00 then Inr 0
      else strncmp s1 s2 n)"
| "strncmp s1 s2 (Suc n) = Inl Read_past_end"

text \<open>The string literals \<open>"ok"\<close> and \<open>"okay"\<close>, as arrays.\<close>

definition lit_ok :: string where
  "lit_ok = ''ok'' @ [CHR 0x00]"

definition lit_okay :: string where
  "lit_okay = ''okay'' @ [CHR 0x00]"

text \<open>
  \<open>is_okay(st, len)\<close>: \<open>!strncmp(st, "ok", len) || !strncmp(st, "okay", len)\<close>; the
  second comparison is not made when the first one gives 0.
\<close>

definition is_okay :: "string \<Rightarrow> nat \<Rightarrow> abort + bool" where
  "is_okay st len =
     (case strncmp st lit_ok len of
        Inl a \<Rightarrow> Inl a
      | Inr r \<Rightarrow>
          if r = 0 then Inr True
          else (case strncmp st lit_okay len of
                  Inl a \<Rightarrow> Inl a
                | Inr r' \<Rightarrow> Inr (r' = 0)))"

text \<open>
  Modelled from the spec: the header \<open>kernel/dt.h\<close> with the \<open>DT_STATUS_*\<close> constants
  is missing. The spec describes a status value as a two-bit set of "active
  non-secure" and "active secure", and a node as disabled when neither flag is set.
\<close>

definition DT_STATUS_DISABLED :: int where
  "DT_STATUS_DISABLED = 0"

definition DT_STATUS_OK_NSEC :: int where
  "DT_STATUS_OK_NSEC = 1"

definition DT_STATUS_OK_SEC :: int where
  "DT_STATUS_OK_SEC = 2"

text \<open>\<open>_fdt_get_status\<close>.\<close>

definition fdt_get_status :: "dt_node \<Rightarrow> abort + int" where
  "fdt_get_status node =
     (case (case fdt_getprop_status node of
              None \<Rightarrow> Inr True
            | Some prop \<Rightarrow> is_okay prop (length prop)) of
        Inl a \<Rightarrow> Inl a
      | Inr c \<Rightarrow>
          (let st = (if c then 0 OR DT_STATUS_OK_NSEC else 0) in
           case fdt_getprop_secure_status node of
             None \<Rightarrow>
               Inr (if st AND DT_STATUS_OK_NSEC \<noteq> 0 then st OR DT_STATUS_OK_SEC else st)
           | Some prop \<Rightarrow>
               (case is_okay prop (length prop) of
                  Inl a \<Rightarrow> Inl a
                | Inr c' \<Rightarrow> Inr (if c' then st OR DT_STATUS_OK_SEC else st))))"

text \<open>The two flags of a status value, as the spec's \<open>resolve_status\<close> names them.\<close>

definition nonsecure_ok :: "int \<Rightarrow> bool" where
  "nonsecure_ok st = (st AND DT_STATUS_OK_NSEC \<noteq> 0)"

definition secure_ok :: "int \<Rightarrow> bool" where
  "secure_ok st = (st AND DT_STATUS_OK_SEC \<noteq> 0)"

subsection \<open>Register window\<close>

text \<open>The end of \<open>_fdt_read_paddr\<close>: \<open>if (!addr) goto bad; return addr;\<close>.\<close>

definition nonzero_or_bad :: "platform \<Rightarrow> nat \<Rightarrow> nat" where
  "nonzero_or_bad plat addr = (if addr = 0 then paddr_minus_1 plat else addr)"

text \<open>
  \<open>_fdt_read_paddr(cell, n)\<close>: \<open>cell\<close> is the list of cells from the pointer on. The
  function is not told how many there are.
\<close>

definition fdt_read_paddr :: "platform \<Rightarrow> 32 word list \<Rightarrow> int \<Rightarrow> abort + nat" where
  "fdt_read_paddr plat cell n =
     (if n < 1 \<or> n > 2 then Inr (paddr_minus_1 plat)
      else case cell of
        [] \<Rightarrow> Inl Read_past_end
      | c0 # cell' \<Rightarrow>
          if n = 2 then
            (case plat of
               ARM32 \<Rightarrow>
                 if c0 \<noteq> 0 then Inr (paddr_minus_1 plat)
                 else (case cell' of
                         [] \<Rightarrow> Inl Read_past_end
                       | c1 # _ \<Rightarrow> Inr (nonzero_or_bad plat (unat c1)))
             | ARM64 \<Rightarrow>
                 (case cell' of
                    [] \<Rightarrow> Inl Read_past_end
                  | c1 # _ \<Rightarrow>
                      Inr (nonzero_or_bad plat
                        (unat (push_bit 32 (ucast c0 :: 64 word) OR ucast c1)))))
          else Inr (nonzero_or_bad plat (unat c0)))"

text \<open>\<open>_fdt_reg_base_address\<close>.\<close>

definition fdt_reg_base_address :: "platform \<Rightarrow> dt_node \<Rightarrow> abort + nat" where
  "fdt_reg_base_address plat node =
     (if fdt_parent_offset node < 0 then Inr (paddr_minus_1 plat)
      else case fdt_getprop_reg node of
        None \<Rightarrow> Inr (paddr_minus_1 plat)
      | Some reg \<Rightarrow>
          if fdt_address_cells node < 0 then Inr (paddr_minus_1 plat)
          else fdt_read_paddr plat reg (fdt_address_cells node))"

text \<open>\<open>_fdt_reg_size\<close>; \<open>reg += n\<close> is \<open>drop\<close>.\<close>

definition fdt_reg_size :: "platform \<Rightarrow> dt_node \<Rightarrow> abort + int" where
  "fdt_reg_size plat node =
     (if fdt_parent_offset node < 0 then Inr (ssize_of_paddr plat (paddr_minus_1 plat))
      else case fdt_getprop_reg node of
        None \<Rightarrow> Inr (- 1)
      | Some reg \<Rightarrow>
          (let n = fdt_address_cells node in
           if n < 1 \<or> n > 2 then Inr (- 1)
           else
             (let reg' = drop (nat n) reg; n' = fdt_size_cells node in
              if n' < 1 \<or> n' > 2 then Inr (- 1)
              else case reg' of
                [] \<Rightarrow> Inl Read_past_end
              | sz # reg'' \<Rightarrow>
                  if n' = 2 then
                    (if sz \<noteq> 0 then Inr (- 1)
                     else case reg'' of
                       [] \<Rightarrow> Inl Read_past_end
                     | sz' # _ \<Rightarrow> Inr (ssize_of_uint32 plat sz'))
                  else Inr (ssize_of_uint32 plat sz))))"

subsection \<open>Mapping\<close>

text \<open>
  The memory mapper is outside the file. \<open>core_mmu_add_mapping\<close> works on the
  mapper's own table (a state of type \<open>'m\<close>) and tells whether the mapping exists
  afterwards; \<open>phys_to_virt\<close> reads the table and gives a virtual address, 0 for
  \<open>NULL\<close>.
\<close>

datatype teecore_memtypes = MEM_AREA_IO_SEC | MEM_AREA_IO_NSEC

record 'm mapper =
  core_mmu_add_mapping :: "teecore_memtypes \<Rightarrow> nat \<Rightarrow> nat \<Rightarrow> 'm \<Rightarrow> bool \<times> 'm"
  phys_to_virt :: "nat \<Rightarrow> teecore_memtypes \<Rightarrow> 'm \<Rightarrow> nat"

text \<open>A call made to the mapper, and a message written with \<open>EMSG\<close>.\<close>

datatype mm_call =
  Core_mmu_add_mapping teecore_memtypes nat nat
| Phys_to_virt nat teecore_memtypes

fun call_mtype :: "mm_call \<Rightarrow> teecore_memtypes" where
  "call_mtype (Core_mmu_add_mapping mtype pa len) = mtype"
| "call_mtype (Phys_to_virt pa mtype) = mtype"

datatype emsg = Failed_to_map nat nat | Failed_to_get_VA nat

text \<open>
  What \<open>dt_map_dev\<close> reads and writes besides the blob: whether the MMU is enabled
  (\<open>cpu_mmu_enabled()\<close>), the mapper's table, the calls made to the mapper so far, the
  messages logged so far, and the two locations \<open>*base\<close> and \<open>*size\<close> of the caller,
  which are two different locations.
\<close>

record 'm world =
  cpu_mmu_enabled :: bool
  mm_table :: 'm
  mm_calls :: "mm_call list"
  emsgs :: "emsg list"
  base_out :: nat
  size_out :: nat

text \<open>\<open>dt_map_dev\<close>: \<open>Inr r\<close> is \<open>return r\<close>.\<close>

definition dt_map_dev ::
  "platform \<Rightarrow> 'm mapper \<Rightarrow> dt_node \<Rightarrow> 'm world \<Rightarrow> (abort + int) \<times> 'm world" where
  "dt_map_dev plat mm node w =
     (if \<not> cpu_mmu_enabled w then (Inl Assertion_failed, w)
      else case fdt_get_status node of
        Inl a \<Rightarrow> (Inl a, w)
      | Inr st \<Rightarrow>
          if st = DT_STATUS_DISABLED then (Inr (- 1), w)
          else case fdt_reg_base_address plat node of
            Inl a \<Rightarrow> (Inl a, w)
          | Inr pbase \<Rightarrow>
              if pbase = paddr_minus_1 plat then (Inr (- 1), w)
              else case fdt_reg_size plat node of
                Inl a \<Rightarrow> (Inl a, w)
              | Inr sz \<Rightarrow>
                  if sz < 0 then (Inr (- 1), w)
                  else
                    (let mtype =
                           (if st AND DT_STATUS_OK_SEC \<noteq> 0 \<and> \<not> (st AND DT_STATUS_OK_NSEC \<noteq> 0)
                            then MEM_AREA_IO_SEC else MEM_AREA_IO_NSEC);
                         (mapped, tbl) = core_mmu_add_mapping mm mtype pbase (nat sz) (mm_table w);
                         w1 = w\<lparr>mm_table := tbl,
                                mm_calls := mm_calls w @ [Core_mmu_add_mapping mtype pbase (nat sz)]\<rparr>
                     in
                       if \<not> mapped
                       then (Inr (- 1), w1\<lparr>emsgs := emsgs w1 @ [Failed_to_map (nat sz) pbase]\<rparr>)
                       else
                         (let vbase = phys_to_virt mm pbase mtype tbl;
                              w2 = w1\<lparr>mm_calls := mm_calls w1 @ [Phys_to_virt pbase mtype]\<rparr>
                          in
                            if vbase = 0
                            then (Inr (- 1), w2\<lparr>emsgs := emsgs w2 @ [Failed_to_get_VA pbase]\<rparr>)
                            else (Inr 0, w2\<lparr>base_out := vbase, size_out := nat sz\<rparr>))))"

subsection \<open>The decoded base, in the words of the specification\<close>

text \<open>
  The base that the specification describes for \<open>n\<close> address cells: the single word
  for \<open>n = 1\<close>; for two words the low-order word on the 32-bit platform and the
  high word followed by the low word, as one 64-bit value, on the 64-bit platform.
\<close>

definition spec_decoded_base :: "platform \<Rightarrow> 32 word list \<Rightarrow> int \<Rightarrow> nat" where
  "spec_decoded_base plat cells n =
     (if n = 1 then unat (cells ! 0)
      else case plat of
        ARM32 \<Rightarrow> unat (cells ! 1)
      | ARM64 \<Rightarrow> unat (word_cat (cells ! 0) (cells ! 1) :: 64 word))"

subsection \<open>The security class, in the words of the specification\<close>

text \<open>
  The class that the specification gives to a status: secure-only I/O when the secure
  flag is set and the non-secure flag is not, non-secure I/O in every other case.
\<close>

definition spec_io_class :: "int \<Rightarrow> teecore_memtypes" where
  "spec_io_class st =
     (if secure_ok st \<and> \<not> nonsecure_ok st then MEM_AREA_IO_SEC else MEM_AREA_IO_NSEC)"

subsection \<open>Example nodes, drivers and mapper\<close>

text \<open>
  A UART whose parent has two address cells and two size cells, with the register
  window \<open>0x10000000\<close>, \<open>0x1000\<close>, and neither \<open>status\<close> nor \<open>secure-status\<close>.
\<close>

definition uart_node :: dt_node where
  "uart_node =
     \<lparr>fdt_parent_offset = 0, fdt_address_cells = 2, fdt_size_cells = 2,
      fdt_getprop_reg = Some [0x0, 0x10000000, 0x0, 0x1000],
      fdt_getprop_status = None, fdt_getprop_secure_status = None,
      fdt_node_check_compatible = (\<lambda>c. if c = Some ''arm,pl011'' then 0 else 1)\<rparr>"

text \<open>The property value \<open>"disabled"\<close>, as \<open>dtc\<close> stores it: with the closing NUL.\<close>

definition disabled_bytes :: string where
  "disabled_bytes = ''disabled'' @ [CHR 0x00]"

text \<open>Two drivers; each match table closes with an entry whose \<open>compatible\<close> is \<open>NULL\<close>.\<close>

definition gic_driver :: dt_driver where
  "gic_driver =
     \<lparr>name = ''gic'',
      match_table = Some [\<lparr>compatible = Some ''arm,gic-400''\<rparr>, \<lparr>compatible = None\<rparr>]\<rparr>"

definition uart_driver :: dt_driver where
  "uart_driver =
     \<lparr>name = ''pl011'',
      match_table = Some [\<lparr>compatible = Some ''arm,pl011''\<rparr>, \<lparr>compatible = None\<rparr>]\<rparr>"

text \<open>
  A mapper that keeps its mappings in a list, maps every range it is asked for, and
  translates a mapped physical address by a fixed offset.
\<close>

definition list_mapper :: "(teecore_memtypes \<times> nat \<times> nat) list mapper" where
  "list_mapper =
     \<lparr>core_mmu_add_mapping = (\<lambda>mtype pa len tbl. (True, tbl @ [(mtype, pa, len)])),
      phys_to_virt = (\<lambda>pa mtype tbl.
        if (mtype, pa) \<in> set (map (\<lambda>(m, p, l). (m, p)) tbl) then 0xE0000000 + pa else 0)\<rparr>"

definition boot_world :: "(teecore_memtypes \<times> nat \<times> nat) list world" where
  "boot_world =
     \<lparr>cpu_mmu_enabled = True, mm_table = [], mm_calls = [], emsgs = [],
      base_out = 0, size_out = 0\<rparr>"

text \<open>
  Variations of the UART: \<open>status = "disabled"\<close>; \<open>secure-status = "disabled"\<close>
  without \<open>status\<close>; \<open>status = "disabled"\<close> with
  \<open>secure-status = "okay"\<close>; no \<open>reg\<close> property; a size of \<open>0xFFFFFFFF\<close>; a \<open>reg\<close>
  property one cell short; a \<open>status\<close> that holds the single byte \<open>o\<close>; an empty
  \<open>secure-status\<close> beside \<open>status = "disabled"\<close>.
\<close>

definition disabled_node :: dt_node where
  "disabled_node = uart_node\<lparr>fdt_getprop_status := Some disabled_bytes\<rparr>"

definition nonsecure_node :: dt_node where
  "nonsecure_node = uart_node\<lparr>fdt_getprop_secure_status := Some disabled_bytes\<rparr>"

definition secure_node :: dt_node where
  "secure_node =
     uart_node\<lparr>fdt_getprop_status := Some disabled_bytes,
               fdt_getprop_secure_status := Some lit_okay\<rparr>"

definition no_reg_node :: dt_node where
  "no_reg_node = uart_node\<lparr>fdt_getprop_reg := None\<rparr>"

definition big_size_node :: dt_node where
  "big_size_node = uart_node\<lparr>fdt_getprop_reg := Some [0x0, 0x10000000, 0x0, 0xFFFFFFFF]\<rparr>"

definition short_reg_node :: dt_node where
  "short_reg_node = uart_node\<lparr>fdt_getprop_reg := Some [0x0, 0x10000000, 0x0]\<rparr>"

definition prefix_status_node :: dt_node where
  "prefix_status_node =
     uart_node\<lparr>fdt_getprop_status := Some ''o'',
               fdt_getprop_secure_status := Some disabled_bytes\<rparr>"

definition empty_secure_status_node :: dt_node where
  "empty_secure_status_node =
     uart_node\<lparr>fdt_getprop_status := Some disabled_bytes,
               fdt_getprop_secure_status := Some []\<rparr>"

section \<open>Properties\<close>

subsection \<open>No function of the file fails an assertion but \<open>dt_map_dev\<close>\<close>

lemma strncmp_not_assert: "strncmp s1 s2 n \<noteq> Inl Assertion_failed"
  by (induction s1 s2 n rule: strncmp.induct) auto

lemma is_okay_not_assert: "is_okay st len \<noteq> Inl Assertion_failed"
  using strncmp_not_assert [of st lit_ok len] strncmp_not_assert [of st lit_okay len]
  by (auto simp: is_okay_def split: sum.splits)

lemma fdt_get_status_not_assert: "fdt_get_status node \<noteq> Inl Assertion_failed"
  using is_okay_not_assert
  by (auto simp: fdt_get_status_def Let_def split: sum.splits option.splits)

lemma fdt_read_paddr_not_assert: "fdt_read_paddr plat cell n \<noteq> Inl Assertion_failed"
  by (auto simp: fdt_read_paddr_def split: list.splits platform.splits)

lemma fdt_reg_base_address_not_assert: "fdt_reg_base_address plat node \<noteq> Inl Assertion_failed"
  using fdt_read_paddr_not_assert
  by (auto simp: fdt_reg_base_address_def split: option.splits)

lemma fdt_reg_size_not_assert: "fdt_reg_size plat node \<noteq> Inl Assertion_failed"
  by (auto simp: fdt_reg_size_def Let_def split: option.splits list.splits)

subsection \<open>What \<open>is_okay\<close> accepts\<close>

text \<open>
  Against a literal without an inner NUL, \<open>strncmp\<close> bounded by the length of the
  property never leaves the property or the literal. It gives 0 in two cases: the
  property is a prefix of the literal (the bound ends the comparison before a
  difference is seen), or the property starts with the literal and its closing NUL.
\<close>

lemma strncmp_lit:
  assumes "CHR 0x00 \<notin> set lit"
  shows "\<exists>r. strncmp st (lit @ [CHR 0x00]) (length st) = Inr r
     \<and> (r = 0) = (prefix st lit \<or> prefix (lit @ [CHR 0x00]) st)"
  using assms
proof (induction lit arbitrary: st)
  case Nil
  show ?case
  proof (cases st)
    case Nil
    then show ?thesis by simp
  next
    case (Cons a s)
    have "(of_char a = (0::nat)) = (a = CHR 0x00)"
      using of_char_eq_iff [of a "CHR 0x00", where ?'a = nat] by simp
    then show ?thesis using Cons by auto
  qed
next
  case (Cons c lit)
  show ?case
  proof (cases st)
    case Nil
    then show ?thesis by simp
  next
    case (Cons a s)
    show ?thesis
    proof (cases "a = c")
      case True
      with Cons.prems have "a \<noteq> CHR 0x00" by auto
      moreover from Cons.prems have "CHR 0x00 \<notin> set lit" by simp
      from Cons.IH [OF this, of s] obtain r where
        "strncmp s (lit @ [CHR 0x00]) (length s) = Inr r"
        "(r = 0) = (prefix s lit \<or> prefix (lit @ [CHR 0x00]) s)" by blast
      ultimately show ?thesis using Cons True by simp
    next
      case False
      then show ?thesis using Cons by (simp add: of_char_eq_iff)
    qed
  qed
qed

lemma is_okay_iff:
  "is_okay st (length st) =
     Inr (prefix st ''okay'' \<or> prefix (''ok'' @ [CHR 0x00]) st \<or> prefix (''okay'' @ [CHR 0x00]) st)"
proof -
  obtain r where r: "strncmp st lit_ok (length st) = Inr r"
    "(r = 0) = (prefix st ''ok'' \<or> prefix (''ok'' @ [CHR 0x00]) st)"
    using strncmp_lit [of "''ok''" st] by (auto simp: lit_ok_def)
  obtain r' where r': "strncmp st lit_okay (length st) = Inr r'"
    "(r' = 0) = (prefix st ''okay'' \<or> prefix (''okay'' @ [CHR 0x00]) st)"
    using strncmp_lit [of "''okay''" st] by (auto simp: lit_okay_def)
  have "prefix st ''ok'' \<Longrightarrow> prefix st ''okay''"
    by (metis append_Cons append_Nil prefix_order.trans prefixI)
  then show ?thesis
    using r r' by (auto simp: is_okay_def)
qed

lemma is_okay_total: "\<exists>b. is_okay st (length st) = Inr b"
  by (simp add: is_okay_iff)

subsection \<open>The status value\<close>

text \<open>
  \<open>_fdt_get_status\<close> always returns, with one of the four values of the two-bit set.
  The non-secure flag is set when \<open>status\<close> is absent or accepted by \<open>is_okay\<close>; the
  secure flag copies the non-secure flag when \<open>secure-status\<close> is absent and is set
  when \<open>is_okay\<close> accepts \<open>secure-status\<close> otherwise.
\<close>

lemma fdt_get_status_flags:
  "\<exists>st. fdt_get_status node = Inr st \<and> st \<in> {0, 1, 2, 3}
     \<and> nonsecure_ok st =
         (case fdt_getprop_status node of
            None \<Rightarrow> True
          | Some prop \<Rightarrow> is_okay prop (length prop) = Inr True)
     \<and> secure_ok st =
         (case fdt_getprop_secure_status node of
            None \<Rightarrow> nonsecure_ok st
          | Some prop \<Rightarrow> is_okay prop (length prop) = Inr True)"
proof -
  obtain b where b: "(case fdt_getprop_status node of
            None \<Rightarrow> Inr True
          | Some prop \<Rightarrow> is_okay prop (length prop)) = Inr b"
    using is_okay_total by (cases "fdt_getprop_status node") auto
  show ?thesis
  proof (cases "fdt_getprop_secure_status node")
    case None
    then show ?thesis using b
      by (cases "fdt_getprop_status node")
        (auto simp: fdt_get_status_def nonsecure_ok_def secure_ok_def
          DT_STATUS_OK_NSEC_def DT_STATUS_OK_SEC_def)
  next
    case (Some p)
    obtain b' where b': "is_okay p (length p) = Inr b'"
      using is_okay_total by blast
    then show ?thesis using b Some
      by (cases "fdt_getprop_status node")
        (auto simp: fdt_get_status_def nonsecure_ok_def secure_ok_def
          DT_STATUS_OK_NSEC_def DT_STATUS_OK_SEC_def)
  qed
qed

lemma status_disabled_iff:
  assumes "fdt_get_status node = Inr st"
  shows "(st = DT_STATUS_DISABLED) = (\<not> nonsecure_ok st \<and> \<not> secure_ok st)"
proof -
  from fdt_get_status_flags [of node] assms have "st \<in> {0, 1, 2, 3}" by auto
  then show ?thesis
    by (auto simp: DT_STATUS_DISABLED_def nonsecure_ok_def secure_ok_def
        DT_STATUS_OK_NSEC_def DT_STATUS_OK_SEC_def)
qed

subsection \<open>Evaluation of the examples\<close>

lemma uart_node_status: "fdt_get_status uart_node = Inr 3"
  by (simp add: fdt_get_status_def uart_node_def DT_STATUS_OK_NSEC_def DT_STATUS_OK_SEC_def)

lemma disabled_bytes_not_okay: "is_okay disabled_bytes (length disabled_bytes) = Inr False"
  by (simp add: is_okay_def lit_ok_def lit_okay_def disabled_bytes_def)

lemma okay_bytes_okay: "is_okay lit_okay (length lit_okay) = Inr True"
  by (simp add: is_okay_def lit_ok_def lit_okay_def)

lemma paddr_minus_1_values:
  "paddr_minus_1 ARM32 = 0xFFFFFFFF" "paddr_minus_1 ARM64 = 0xFFFFFFFFFFFFFFFF"
  by (simp_all add: paddr_minus_1_def word_bits_def)

lemma uart_node_base: "fdt_reg_base_address plat uart_node = Inr 0x10000000"
  by (cases plat)
    (simp_all add: fdt_reg_base_address_def fdt_read_paddr_def nonzero_or_bad_def uart_node_def)

lemma uart_node_size: "fdt_reg_size plat uart_node = Inr 0x1000"
  by (cases plat)
    (simp_all add: fdt_reg_size_def ssize_of_uint32_def uart_node_def)

text \<open>
  The end-to-end example of the specification: the UART is mapped as non-secure I/O
  and both outputs are written.
\<close>

lemma uart_node_mapped:
  "dt_map_dev ARM64 list_mapper uart_node boot_world =
     (Inr 0,
      \<lparr>cpu_mmu_enabled = True,
       mm_table = [(MEM_AREA_IO_NSEC, 0x10000000, 0x1000)],
       mm_calls = [Core_mmu_add_mapping MEM_AREA_IO_NSEC 0x10000000 0x1000,
                   Phys_to_virt 0x10000000 MEM_AREA_IO_NSEC],
       emsgs = [], base_out = 0xF0000000, size_out = 0x1000\<rparr>)"
  by (simp add: dt_map_dev_def uart_node_status uart_node_base uart_node_size
      paddr_minus_1_values DT_STATUS_DISABLED_def DT_STATUS_OK_NSEC_def DT_STATUS_OK_SEC_def
      list_mapper_def boot_world_def)

lemma disabled_node_status: "fdt_get_status disabled_node = Inr 0"
  by (simp add: fdt_get_status_def disabled_node_def uart_node_def disabled_bytes_not_okay)

lemma secure_node_status: "fdt_get_status secure_node = Inr 2"
  by (simp add: fdt_get_status_def secure_node_def uart_node_def disabled_bytes_not_okay
      okay_bytes_okay DT_STATUS_OK_SEC_def)

lemma no_reg_node_status: "fdt_get_status no_reg_node = Inr 3"
  by (simp add: fdt_get_status_def no_reg_node_def uart_node_def
      DT_STATUS_OK_NSEC_def DT_STATUS_OK_SEC_def)

lemma no_reg_node_base: "fdt_reg_base_address plat no_reg_node = Inr (paddr_minus_1 plat)"
  by (simp add: fdt_reg_base_address_def no_reg_node_def uart_node_def)

lemma secure_node_base: "fdt_reg_base_address plat secure_node = Inr 0x10000000"
  by (cases plat)
    (simp_all add: fdt_reg_base_address_def fdt_read_paddr_def nonzero_or_bad_def
      secure_node_def uart_node_def)

lemma secure_node_size: "fdt_reg_size plat secure_node = Inr 0x1000"
  by (cases plat)
    (simp_all add: fdt_reg_size_def ssize_of_uint32_def secure_node_def uart_node_def)

lemma flags_values:
  "\<not> nonsecure_ok 0" "\<not> secure_ok 0" "nonsecure_ok 1" "\<not> secure_ok 1"
  "\<not> nonsecure_ok 2" "secure_ok 2" "nonsecure_ok 3" "secure_ok 3"
  by (simp_all add: nonsecure_ok_def secure_ok_def DT_STATUS_OK_NSEC_def DT_STATUS_OK_SEC_def)

lemma spec_io_class_values:
  "spec_io_class 0 = MEM_AREA_IO_NSEC" "spec_io_class 1 = MEM_AREA_IO_NSEC"
  "spec_io_class 2 = MEM_AREA_IO_SEC" "spec_io_class 3 = MEM_AREA_IO_NSEC"
  by (simp_all add: spec_io_class_def flags_values)

lemma nonsecure_node_status: "fdt_get_status nonsecure_node = Inr 1"
  by (simp add: fdt_get_status_def nonsecure_node_def uart_node_def disabled_bytes_not_okay
      DT_STATUS_OK_NSEC_def)

lemma nonsecure_node_base: "fdt_reg_base_address plat nonsecure_node = Inr 0x10000000"
  by (cases plat)
    (simp_all add: fdt_reg_base_address_def fdt_read_paddr_def nonzero_or_bad_def
      nonsecure_node_def uart_node_def)

lemma nonsecure_node_size: "fdt_reg_size plat nonsecure_node = Inr 0x1000"
  by (cases plat)
    (simp_all add: fdt_reg_size_def ssize_of_uint32_def nonsecure_node_def uart_node_def)

text \<open>
  A node that is enabled for the secure world only is mapped as secure I/O; a node
  without \<open>reg\<close> and a disabled node both end in \<open>return -1\<close> with nothing changed.
\<close>

lemma secure_node_mapped:
  "dt_map_dev ARM64 list_mapper secure_node boot_world =
     (Inr 0,
      \<lparr>cpu_mmu_enabled = True,
       mm_table = [(MEM_AREA_IO_SEC, 0x10000000, 0x1000)],
       mm_calls = [Core_mmu_add_mapping MEM_AREA_IO_SEC 0x10000000 0x1000,
                   Phys_to_virt 0x10000000 MEM_AREA_IO_SEC],
       emsgs = [], base_out = 0xF0000000, size_out = 0x1000\<rparr>)"
  by (simp add: dt_map_dev_def secure_node_status secure_node_base secure_node_size
      paddr_minus_1_values DT_STATUS_DISABLED_def DT_STATUS_OK_NSEC_def DT_STATUS_OK_SEC_def
      list_mapper_def boot_world_def)

lemma no_reg_node_fails:
  "dt_map_dev ARM64 list_mapper no_reg_node boot_world = (Inr (- 1), boot_world)"
  by (simp add: dt_map_dev_def no_reg_node_status no_reg_node_base
      DT_STATUS_DISABLED_def boot_world_def)


subsection \<open>The assertion of \<open>dt_map_dev\<close>\<close>

text \<open>
  C9. \<open>dt_map_dev\<close> asserts that the MMU is enabled. Called with the MMU disabled it
  stops in the failed assertion: it returns no value, calls nothing and writes
  nothing. Called with the MMU enabled it never fails the assertion.
\<close>

theorem dt_map_dev_assertion:
  "(fst (dt_map_dev plat mm node w) = Inl Assertion_failed) = (\<not> cpu_mmu_enabled w)
   \<and> (\<not> cpu_mmu_enabled w \<longrightarrow> dt_map_dev plat mm node w = (Inl Assertion_failed, w))"
  using fdt_get_status_not_assert [of node] fdt_reg_base_address_not_assert [of plat node]
    fdt_reg_size_not_assert [of plat node]
  by (auto simp: dt_map_dev_def Let_def split: sum.splits prod.splits)

text \<open>
  C9, at the UART: with the MMU enabled the assertion holds, with the MMU disabled
  the call stops in it.
\<close>

theorem dt_map_dev_assertion_witness:
  "fst (dt_map_dev ARM64 list_mapper uart_node boot_world) \<noteq> Inl Assertion_failed
   \<and> dt_map_dev ARM64 list_mapper uart_node (boot_world\<lparr>cpu_mmu_enabled := False\<rparr>) =
       (Inl Assertion_failed, boot_world\<lparr>cpu_mmu_enabled := False\<rparr>)"
  using dt_map_dev_assertion [of ARM64 list_mapper uart_node boot_world]
    dt_map_dev_assertion [of ARM64 list_mapper uart_node "boot_world\<lparr>cpu_mmu_enabled := False\<rparr>"]
  by (simp add: boot_world_def)

subsection \<open>The memory type that \<open>dt_map_dev\<close> selects\<close>

text \<open>
  A call that returns 0 has made exactly two calls to the mapper, both with the
  selected memory type, the resolved base and the resolved size.
\<close>

lemma dt_map_dev_success_calls:
  assumes "fdt_get_status node = Inr st" and "fst (dt_map_dev plat mm node w) = Inr 0"
  shows "\<exists>pbase sz mtype.
     fdt_reg_base_address plat node = Inr pbase \<and> fdt_reg_size plat node = Inr (int sz)
   \<and> mtype = (if secure_ok st \<and> \<not> nonsecure_ok st then MEM_AREA_IO_SEC else MEM_AREA_IO_NSEC)
   \<and> mm_calls (snd (dt_map_dev plat mm node w)) =
         mm_calls w @ [Core_mmu_add_mapping mtype pbase sz, Phys_to_virt pbase mtype]"
  using assms
  by (auto simp: dt_map_dev_def Let_def secure_ok_def nonsecure_ok_def
      split: sum.splits prod.splits if_splits)

text \<open>
  Every call that \<open>dt_map_dev\<close> records carries the class of the resolved status; with
  no flag set it leaves the mapper alone.
\<close>

lemma dt_map_dev_trace_mtype:
  assumes "fdt_get_status node = Inr st"
    and "mm_calls (snd (dt_map_dev plat mm node w)) = mm_calls w @ cs"
    and "c \<in> set cs"
  shows "call_mtype c = spec_io_class st"
  using assms
  by (auto simp: dt_map_dev_def Let_def spec_io_class_def secure_ok_def nonsecure_ok_def
      split: sum.splits prod.splits if_splits)

lemma dt_map_dev_no_flag:
  assumes "fdt_get_status node = Inr st" and "\<not> secure_ok st \<and> \<not> nonsecure_ok st"
  shows "mm_calls (snd (dt_map_dev plat mm node w)) = mm_calls w
       \<and> mm_table (snd (dt_map_dev plat mm node w)) = mm_table w"
  using assms status_disabled_iff [OF assms(1)]
  by (simp add: dt_map_dev_def)

text \<open>Once status, base and size are resolved, the rest of \<open>dt_map_dev\<close> is the mapper's.\<close>

lemma dt_map_dev_resolved:
  assumes "cpu_mmu_enabled w" and "fdt_get_status node = Inr st"
    and "secure_ok st \<or> nonsecure_ok st"
    and "fdt_reg_base_address plat node = Inr pbase" and "pbase \<noteq> paddr_minus_1 plat"
    and "fdt_reg_size plat node = Inr sz" and "0 \<le> sz"
    and "core_mmu_add_mapping mm (spec_io_class st) pbase (nat sz) (mm_table w) = (mapped, tbl)"
  shows "dt_map_dev plat mm node w =
     (if \<not> mapped then
        (Inr (- 1),
         w\<lparr>mm_table := tbl,
           mm_calls := mm_calls w @ [Core_mmu_add_mapping (spec_io_class st) pbase (nat sz)],
           emsgs := emsgs w @ [Failed_to_map (nat sz) pbase]\<rparr>)
      else if phys_to_virt mm pbase (spec_io_class st) tbl = 0 then
        (Inr (- 1),
         w\<lparr>mm_table := tbl,
           mm_calls := mm_calls w @ [Core_mmu_add_mapping (spec_io_class st) pbase (nat sz),
                                     Phys_to_virt pbase (spec_io_class st)],
           emsgs := emsgs w @ [Failed_to_get_VA pbase]\<rparr>)
      else
        (Inr 0,
         w\<lparr>mm_table := tbl,
           mm_calls := mm_calls w @ [Core_mmu_add_mapping (spec_io_class st) pbase (nat sz),
                                     Phys_to_virt pbase (spec_io_class st)],
           base_out := phys_to_virt mm pbase (spec_io_class st) tbl,
           size_out := nat sz\<rparr>))"
proof -
  from assms(2,3) have "st \<noteq> DT_STATUS_DISABLED"
    using status_disabled_iff [OF assms(2)] by blast
  with assms show ?thesis
    by (simp add: dt_map_dev_def Let_def spec_io_class_def secure_ok_def nonsecure_ok_def)
qed

text \<open>
  C1. Let \<open>st\<close> be the status that \<open>_fdt_get_status\<close> resolves. The class of \<open>st\<close> is
  \<open>MEM_AREA_IO_SEC\<close> if and only if the secure flag is set and the non-secure flag is
  not, and \<open>MEM_AREA_IO_NSEC\<close> in the three other combinations. Every call that
  \<open>dt_map_dev\<close> makes to the mapper carries that class. With neither flag set no
  call is made and the mapper's table stays as it was. With a flag set, the MMU
  enabled and base and size resolved, \<open>core_mmu_add_mapping\<close> is called with that
  class, the base and the size, and the mapper's table afterwards is the one this
  call gives; if the mapping exists, \<open>phys_to_virt\<close> is called with the base and the
  same class, and \<open>dt_map_dev\<close> returns 0 exactly when that address is not null,
  writing it and the size to the outputs.
\<close>

theorem dt_map_dev_mtype:
  assumes "fdt_get_status node = Inr st"
  shows
  "(\<forall>cs c. mm_calls (snd (dt_map_dev plat mm node w)) = mm_calls w @ cs \<longrightarrow> c \<in> set cs \<longrightarrow>
       call_mtype c = spec_io_class st)
 \<and> (\<not> secure_ok st \<and> \<not> nonsecure_ok st \<longrightarrow>
       mm_calls (snd (dt_map_dev plat mm node w)) = mm_calls w
     \<and> mm_table (snd (dt_map_dev plat mm node w)) = mm_table w)
 \<and> (cpu_mmu_enabled w \<and> (secure_ok st \<or> nonsecure_ok st)
     \<and> fdt_reg_base_address plat node = Inr pbase \<and> pbase \<noteq> paddr_minus_1 plat
     \<and> fdt_reg_size plat node = Inr sz \<and> 0 \<le> sz
     \<and> core_mmu_add_mapping mm (spec_io_class st) pbase (nat sz) (mm_table w) = (mapped, tbl) \<longrightarrow>
       mm_table (snd (dt_map_dev plat mm node w)) = tbl
     \<and> mm_calls (snd (dt_map_dev plat mm node w)) =
         mm_calls w @
           (if mapped
            then [Core_mmu_add_mapping (spec_io_class st) pbase (nat sz),
                  Phys_to_virt pbase (spec_io_class st)]
            else [Core_mmu_add_mapping (spec_io_class st) pbase (nat sz)])
     \<and> fst (dt_map_dev plat mm node w) =
         (if mapped \<and> phys_to_virt mm pbase (spec_io_class st) tbl \<noteq> 0 then Inr 0
          else Inr (- 1))
     \<and> (fst (dt_map_dev plat mm node w) = Inr 0 \<longrightarrow>
           base_out (snd (dt_map_dev plat mm node w)) =
             phys_to_virt mm pbase (spec_io_class st) tbl
         \<and> size_out (snd (dt_map_dev plat mm node w)) = nat sz))
 \<and> spec_io_class st =
      (if secure_ok st \<and> \<not> nonsecure_ok st then MEM_AREA_IO_SEC else MEM_AREA_IO_NSEC)"
proof (intro conjI allI impI)
  fix cs c
  assume "mm_calls (snd (dt_map_dev plat mm node w)) = mm_calls w @ cs" and "c \<in> set cs"
  with assms show "call_mtype c = spec_io_class st"
    by (rule dt_map_dev_trace_mtype)
next
  assume n: "\<not> secure_ok st \<and> \<not> nonsecure_ok st"
  have "mm_calls (snd (dt_map_dev plat mm node w)) = mm_calls w
      \<and> mm_table (snd (dt_map_dev plat mm node w)) = mm_table w"
    by (rule dt_map_dev_no_flag [OF assms n])
  then show "mm_calls (snd (dt_map_dev plat mm node w)) = mm_calls w"
    and "mm_table (snd (dt_map_dev plat mm node w)) = mm_table w"
    by simp_all
next
  assume r: "cpu_mmu_enabled w \<and> (secure_ok st \<or> nonsecure_ok st)
     \<and> fdt_reg_base_address plat node = Inr pbase \<and> pbase \<noteq> paddr_minus_1 plat
     \<and> fdt_reg_size plat node = Inr sz \<and> 0 \<le> sz
     \<and> core_mmu_add_mapping mm (spec_io_class st) pbase (nat sz) (mm_table w) = (mapped, tbl)"
  then have e: "dt_map_dev plat mm node w =
     (if \<not> mapped then
        (Inr (- 1),
         w\<lparr>mm_table := tbl,
           mm_calls := mm_calls w @ [Core_mmu_add_mapping (spec_io_class st) pbase (nat sz)],
           emsgs := emsgs w @ [Failed_to_map (nat sz) pbase]\<rparr>)
      else if phys_to_virt mm pbase (spec_io_class st) tbl = 0 then
        (Inr (- 1),
         w\<lparr>mm_table := tbl,
           mm_calls := mm_calls w @ [Core_mmu_add_mapping (spec_io_class st) pbase (nat sz),
                                     Phys_to_virt pbase (spec_io_class st)],
           emsgs := emsgs w @ [Failed_to_get_VA pbase]\<rparr>)
      else
        (Inr 0,
         w\<lparr>mm_table := tbl,
           mm_calls := mm_calls w @ [Core_mmu_add_mapping (spec_io_class st) pbase (nat sz),
                                     Phys_to_virt pbase (spec_io_class st)],
           base_out := phys_to_virt mm pbase (spec_io_class st) tbl,
           size_out := nat sz\<rparr>))"
    using dt_map_dev_resolved [OF _ assms, of w plat pbase sz mm mapped tbl] by blast
  show "mm_table (snd (dt_map_dev plat mm node w)) = tbl"
    by (simp add: e)
  show "mm_calls (snd (dt_map_dev plat mm node w)) =
         mm_calls w @
           (if mapped
            then [Core_mmu_add_mapping (spec_io_class st) pbase (nat sz),
                  Phys_to_virt pbase (spec_io_class st)]
            else [Core_mmu_add_mapping (spec_io_class st) pbase (nat sz)])"
    by (simp add: e)
  show "fst (dt_map_dev plat mm node w) =
         (if mapped \<and> phys_to_virt mm pbase (spec_io_class st) tbl \<noteq> 0 then Inr 0
          else Inr (- 1))"
    by (simp add: e)
  {
    assume "fst (dt_map_dev plat mm node w) = Inr 0"
    then show "base_out (snd (dt_map_dev plat mm node w)) =
             phys_to_virt mm pbase (spec_io_class st) tbl"
      and "size_out (snd (dt_map_dev plat mm node w)) = nat sz"
      by (simp_all add: e split: if_splits)
  }
next
  show "spec_io_class st =
      (if secure_ok st \<and> \<not> nonsecure_ok st then MEM_AREA_IO_SEC else MEM_AREA_IO_NSEC)"
    by (simp add: spec_io_class_def)
qed

text \<open>
  C1, on both platforms: at a node enabled for the secure world only (secure I/O),
  at a node enabled for the non-secure world only and at the UART, which has both
  flags set (non-secure I/O), and at a disabled node (no call).
\<close>

theorem dt_map_dev_mtype_witness:
  "fdt_get_status secure_node = Inr 2 \<and> secure_ok 2 \<and> \<not> nonsecure_ok 2
 \<and> fdt_get_status nonsecure_node = Inr 1 \<and> \<not> secure_ok 1 \<and> nonsecure_ok 1
 \<and> fdt_get_status uart_node = Inr 3 \<and> secure_ok 3 \<and> nonsecure_ok 3
 \<and> fdt_get_status disabled_node = Inr 0 \<and> \<not> secure_ok 0 \<and> \<not> nonsecure_ok 0
 \<and> fst (dt_map_dev ARM32 list_mapper secure_node boot_world) = Inr 0
 \<and> mm_table (snd (dt_map_dev ARM32 list_mapper secure_node boot_world)) =
      [(MEM_AREA_IO_SEC, 0x10000000, 0x1000)]
 \<and> mm_calls (snd (dt_map_dev ARM32 list_mapper secure_node boot_world)) =
      [Core_mmu_add_mapping MEM_AREA_IO_SEC 0x10000000 0x1000, Phys_to_virt 0x10000000 MEM_AREA_IO_SEC]
 \<and> fst (dt_map_dev ARM64 list_mapper secure_node boot_world) = Inr 0
 \<and> mm_table (snd (dt_map_dev ARM64 list_mapper secure_node boot_world)) =
      [(MEM_AREA_IO_SEC, 0x10000000, 0x1000)]
 \<and> mm_calls (snd (dt_map_dev ARM64 list_mapper secure_node boot_world)) =
      [Core_mmu_add_mapping MEM_AREA_IO_SEC 0x10000000 0x1000, Phys_to_virt 0x10000000 MEM_AREA_IO_SEC]
 \<and> fst (dt_map_dev ARM32 list_mapper nonsecure_node boot_world) = Inr 0
 \<and> mm_table (snd (dt_map_dev ARM32 list_mapper nonsecure_node boot_world)) =
      [(MEM_AREA_IO_NSEC, 0x10000000, 0x1000)]
 \<and> mm_calls (snd (dt_map_dev ARM32 list_mapper nonsecure_node boot_world)) =
      [Core_mmu_add_mapping MEM_AREA_IO_NSEC 0x10000000 0x1000, Phys_to_virt 0x10000000 MEM_AREA_IO_NSEC]
 \<and> fst (dt_map_dev ARM64 list_mapper nonsecure_node boot_world) = Inr 0
 \<and> mm_table (snd (dt_map_dev ARM64 list_mapper nonsecure_node boot_world)) =
      [(MEM_AREA_IO_NSEC, 0x10000000, 0x1000)]
 \<and> mm_calls (snd (dt_map_dev ARM64 list_mapper nonsecure_node boot_world)) =
      [Core_mmu_add_mapping MEM_AREA_IO_NSEC 0x10000000 0x1000, Phys_to_virt 0x10000000 MEM_AREA_IO_NSEC]
 \<and> fst (dt_map_dev ARM32 list_mapper uart_node boot_world) = Inr 0
 \<and> mm_table (snd (dt_map_dev ARM32 list_mapper uart_node boot_world)) =
      [(MEM_AREA_IO_NSEC, 0x10000000, 0x1000)]
 \<and> mm_calls (snd (dt_map_dev ARM32 list_mapper uart_node boot_world)) =
      [Core_mmu_add_mapping MEM_AREA_IO_NSEC 0x10000000 0x1000, Phys_to_virt 0x10000000 MEM_AREA_IO_NSEC]
 \<and> fst (dt_map_dev ARM64 list_mapper uart_node boot_world) = Inr 0
 \<and> mm_table (snd (dt_map_dev ARM64 list_mapper uart_node boot_world)) =
      [(MEM_AREA_IO_NSEC, 0x10000000, 0x1000)]
 \<and> mm_calls (snd (dt_map_dev ARM64 list_mapper uart_node boot_world)) =
      [Core_mmu_add_mapping MEM_AREA_IO_NSEC 0x10000000 0x1000, Phys_to_virt 0x10000000 MEM_AREA_IO_NSEC]
 \<and> mm_table (snd (dt_map_dev ARM32 list_mapper disabled_node boot_world)) = []
 \<and> mm_calls (snd (dt_map_dev ARM32 list_mapper disabled_node boot_world)) = []"
proof -
  have secure_node_ARM32:
    "fst (dt_map_dev ARM32 list_mapper secure_node boot_world) = Inr 0
   \<and> mm_table (snd (dt_map_dev ARM32 list_mapper secure_node boot_world)) =
       [(MEM_AREA_IO_SEC, 0x10000000, 0x1000)]
   \<and> mm_calls (snd (dt_map_dev ARM32 list_mapper secure_node boot_world)) =
       [Core_mmu_add_mapping MEM_AREA_IO_SEC 0x10000000 0x1000, Phys_to_virt 0x10000000 MEM_AREA_IO_SEC]"
    using dt_map_dev_mtype [OF secure_node_status, where plat = ARM32 and mm = list_mapper
        and w = boot_world and pbase = "0x10000000" and sz = "0x1000" and mapped = True
        and tbl = "[(MEM_AREA_IO_SEC, 0x10000000, 0x1000)]"]
    by (simp add: boot_world_def list_mapper_def spec_io_class_values flags_values
        secure_node_base secure_node_size paddr_minus_1_values)
  have secure_node_ARM64:
    "fst (dt_map_dev ARM64 list_mapper secure_node boot_world) = Inr 0
   \<and> mm_table (snd (dt_map_dev ARM64 list_mapper secure_node boot_world)) =
       [(MEM_AREA_IO_SEC, 0x10000000, 0x1000)]
   \<and> mm_calls (snd (dt_map_dev ARM64 list_mapper secure_node boot_world)) =
       [Core_mmu_add_mapping MEM_AREA_IO_SEC 0x10000000 0x1000, Phys_to_virt 0x10000000 MEM_AREA_IO_SEC]"
    using dt_map_dev_mtype [OF secure_node_status, where plat = ARM64 and mm = list_mapper
        and w = boot_world and pbase = "0x10000000" and sz = "0x1000" and mapped = True
        and tbl = "[(MEM_AREA_IO_SEC, 0x10000000, 0x1000)]"]
    by (simp add: boot_world_def list_mapper_def spec_io_class_values flags_values
        secure_node_base secure_node_size paddr_minus_1_values)
  have nonsecure_node_ARM32:
    "fst (dt_map_dev ARM32 list_mapper nonsecure_node boot_world) = Inr 0
   \<and> mm_table (snd (dt_map_dev ARM32 list_mapper nonsecure_node boot_world)) =
       [(MEM_AREA_IO_NSEC, 0x10000000, 0x1000)]
   \<and> mm_calls (snd (dt_map_dev ARM32 list_mapper nonsecure_node boot_world)) =
       [Core_mmu_add_mapping MEM_AREA_IO_NSEC 0x10000000 0x1000, Phys_to_virt 0x10000000 MEM_AREA_IO_NSEC]"
    using dt_map_dev_mtype [OF nonsecure_node_status, where plat = ARM32 and mm = list_mapper
        and w = boot_world and pbase = "0x10000000" and sz = "0x1000" and mapped = True
        and tbl = "[(MEM_AREA_IO_NSEC, 0x10000000, 0x1000)]"]
    by (simp add: boot_world_def list_mapper_def spec_io_class_values flags_values
        nonsecure_node_base nonsecure_node_size paddr_minus_1_values)
  have nonsecure_node_ARM64:
    "fst (dt_map_dev ARM64 list_mapper nonsecure_node boot_world) = Inr 0
   \<and> mm_table (snd (dt_map_dev ARM64 list_mapper nonsecure_node boot_world)) =
       [(MEM_AREA_IO_NSEC, 0x10000000, 0x1000)]
   \<and> mm_calls (snd (dt_map_dev ARM64 list_mapper nonsecure_node boot_world)) =
       [Core_mmu_add_mapping MEM_AREA_IO_NSEC 0x10000000 0x1000, Phys_to_virt 0x10000000 MEM_AREA_IO_NSEC]"
    using dt_map_dev_mtype [OF nonsecure_node_status, where plat = ARM64 and mm = list_mapper
        and w = boot_world and pbase = "0x10000000" and sz = "0x1000" and mapped = True
        and tbl = "[(MEM_AREA_IO_NSEC, 0x10000000, 0x1000)]"]
    by (simp add: boot_world_def list_mapper_def spec_io_class_values flags_values
        nonsecure_node_base nonsecure_node_size paddr_minus_1_values)
  have uart_node_ARM32:
    "fst (dt_map_dev ARM32 list_mapper uart_node boot_world) = Inr 0
   \<and> mm_table (snd (dt_map_dev ARM32 list_mapper uart_node boot_world)) =
       [(MEM_AREA_IO_NSEC, 0x10000000, 0x1000)]
   \<and> mm_calls (snd (dt_map_dev ARM32 list_mapper uart_node boot_world)) =
       [Core_mmu_add_mapping MEM_AREA_IO_NSEC 0x10000000 0x1000, Phys_to_virt 0x10000000 MEM_AREA_IO_NSEC]"
    using dt_map_dev_mtype [OF uart_node_status, where plat = ARM32 and mm = list_mapper
        and w = boot_world and pbase = "0x10000000" and sz = "0x1000" and mapped = True
        and tbl = "[(MEM_AREA_IO_NSEC, 0x10000000, 0x1000)]"]
    by (simp add: boot_world_def list_mapper_def spec_io_class_values flags_values
        uart_node_base uart_node_size paddr_minus_1_values)
  have uart_node_ARM64:
    "fst (dt_map_dev ARM64 list_mapper uart_node boot_world) = Inr 0
   \<and> mm_table (snd (dt_map_dev ARM64 list_mapper uart_node boot_world)) =
       [(MEM_AREA_IO_NSEC, 0x10000000, 0x1000)]
   \<and> mm_calls (snd (dt_map_dev ARM64 list_mapper uart_node boot_world)) =
       [Core_mmu_add_mapping MEM_AREA_IO_NSEC 0x10000000 0x1000, Phys_to_virt 0x10000000 MEM_AREA_IO_NSEC]"
    using dt_map_dev_mtype [OF uart_node_status, where plat = ARM64 and mm = list_mapper
        and w = boot_world and pbase = "0x10000000" and sz = "0x1000" and mapped = True
        and tbl = "[(MEM_AREA_IO_NSEC, 0x10000000, 0x1000)]"]
    by (simp add: boot_world_def list_mapper_def spec_io_class_values flags_values
        uart_node_base uart_node_size paddr_minus_1_values)
  have disabled_node_ARM32:
    "mm_table (snd (dt_map_dev ARM32 list_mapper disabled_node boot_world)) = []
   \<and> mm_calls (snd (dt_map_dev ARM32 list_mapper disabled_node boot_world)) = []"
    using dt_map_dev_mtype [OF disabled_node_status, where plat = ARM32 and mm = list_mapper
        and w = boot_world]
    by (simp add: boot_world_def flags_values)
  show ?thesis
    using secure_node_ARM32 secure_node_ARM64 nonsecure_node_ARM32 nonsecure_node_ARM64
      uart_node_ARM32 uart_node_ARM64 disabled_node_ARM32
      secure_node_status nonsecure_node_status uart_node_status disabled_node_status
      flags_values
    by simp
qed

subsection \<open>A disabled node\<close>

text \<open>
  A call that does not return 0 has either left the mapper and the log alone, or
  failed in \<open>core_mmu_add_mapping\<close>, or failed in \<open>phys_to_virt\<close>; the last two log a
  message.
\<close>

lemma dt_map_dev_failure_calls:
  assumes "fst (dt_map_dev plat mm node w) \<noteq> Inr 0"
  shows "emsgs (snd (dt_map_dev plat mm node w)) = emsgs w
           \<and> mm_calls (snd (dt_map_dev plat mm node w)) = mm_calls w
       \<or> (\<exists>pbase sz mtype.
             emsgs (snd (dt_map_dev plat mm node w)) = emsgs w @ [Failed_to_map sz pbase]
           \<and> mm_calls (snd (dt_map_dev plat mm node w)) =
                mm_calls w @ [Core_mmu_add_mapping mtype pbase sz])
       \<or> (\<exists>pbase sz mtype.
             emsgs (snd (dt_map_dev plat mm node w)) = emsgs w @ [Failed_to_get_VA pbase]
           \<and> mm_calls (snd (dt_map_dev plat mm node w)) =
                mm_calls w @ [Core_mmu_add_mapping mtype pbase sz, Phys_to_virt pbase mtype])"
  using assms
  by (auto simp: dt_map_dev_def Let_def split: sum.splits prod.splits if_splits)




subsection \<open>The outputs of \<open>dt_map_dev\<close>\<close>

text \<open>
  C10. Unless \<open>dt_map_dev\<close> returns 0, \<open>*base\<close> and \<open>*size\<close> hold what they held
  before the call. When it returns 0, both are written: \<open>*size\<close> holds the size that
  \<open>_fdt_reg_size\<close> resolved and \<open>*base\<close> the non-null address that \<open>phys_to_virt\<close>
  gave for the resolved base.
\<close>

theorem dt_map_dev_frame:
  "(fst (dt_map_dev plat mm node w) \<noteq> Inr 0 \<longrightarrow>
      base_out (snd (dt_map_dev plat mm node w)) = base_out w
    \<and> size_out (snd (dt_map_dev plat mm node w)) = size_out w)
 \<and> (fst (dt_map_dev plat mm node w) = Inr 0 \<longrightarrow>
      fdt_reg_size plat node = Inr (int (size_out (snd (dt_map_dev plat mm node w))))
    \<and> base_out (snd (dt_map_dev plat mm node w)) \<noteq> 0
    \<and> (\<exists>pbase mtype.
          fdt_reg_base_address plat node = Inr pbase \<and> pbase \<noteq> paddr_minus_1 plat
        \<and> base_out (snd (dt_map_dev plat mm node w)) =
            phys_to_virt mm pbase mtype (mm_table (snd (dt_map_dev plat mm node w)))))"
  by (auto simp: dt_map_dev_def Let_def split: sum.splits prod.splits if_splits)

text \<open>C10, at the node without \<open>reg\<close> (a failure) and at the UART (a success).\<close>

theorem dt_map_dev_frame_witness:
  "fst (dt_map_dev ARM64 list_mapper no_reg_node boot_world) \<noteq> Inr 0
 \<and> base_out (snd (dt_map_dev ARM64 list_mapper no_reg_node boot_world)) = 0
 \<and> size_out (snd (dt_map_dev ARM64 list_mapper no_reg_node boot_world)) = 0
 \<and> fst (dt_map_dev ARM64 list_mapper uart_node boot_world) = Inr 0
 \<and> base_out (snd (dt_map_dev ARM64 list_mapper uart_node boot_world)) \<noteq> 0
 \<and> size_out (snd (dt_map_dev ARM64 list_mapper uart_node boot_world)) = 0x1000"
proof -
  have f: "fst (dt_map_dev ARM64 list_mapper no_reg_node boot_world) \<noteq> Inr 0"
    by (simp add: no_reg_node_fails)
  have s: "fst (dt_map_dev ARM64 list_mapper uart_node boot_world) = Inr 0"
    by (simp add: uart_node_mapped)
  from f dt_map_dev_frame [of ARM64 list_mapper no_reg_node boot_world]
  have "base_out (snd (dt_map_dev ARM64 list_mapper no_reg_node boot_world)) = base_out boot_world
      \<and> size_out (snd (dt_map_dev ARM64 list_mapper no_reg_node boot_world)) = size_out boot_world"
    by blast
  moreover from s dt_map_dev_frame [of ARM64 list_mapper uart_node boot_world]
  have "fdt_reg_size ARM64 uart_node =
          Inr (int (size_out (snd (dt_map_dev ARM64 list_mapper uart_node boot_world))))
      \<and> base_out (snd (dt_map_dev ARM64 list_mapper uart_node boot_world)) \<noteq> 0"
    by blast
  ultimately show ?thesis
    using f s by (simp add: boot_world_def uart_node_size)
qed

subsection \<open>Decoding the base address\<close>

lemma fdt_read_paddr_bad_n:
  "n < 1 \<or> 2 < n \<Longrightarrow> fdt_read_paddr plat cells n = Inr (paddr_minus_1 plat)"
  by (auto simp add: fdt_read_paddr_def)

lemma fdt_read_paddr_1:
  "fdt_read_paddr plat (c0 # cs) 1 = Inr (nonzero_or_bad plat (unat c0))"
  by (simp add: fdt_read_paddr_def)

lemma fdt_read_paddr_2_ARM32:
  "fdt_read_paddr ARM32 (c0 # c1 # cs) 2 =
     Inr (if c0 \<noteq> 0 then paddr_minus_1 ARM32 else nonzero_or_bad ARM32 (unat c1))"
  by (simp add: fdt_read_paddr_def)

lemma fdt_read_paddr_2_ARM32_high:
  "c0 \<noteq> 0 \<Longrightarrow> fdt_read_paddr ARM32 (c0 # cs) 2 = Inr (paddr_minus_1 ARM32)"
  by (simp add: fdt_read_paddr_def)

lemma fdt_read_paddr_2_ARM64:
  "fdt_read_paddr ARM64 (c0 # c1 # cs) 2 =
     Inr (nonzero_or_bad ARM64 (unat (word_cat c0 c1 :: 64 word)))"
  by (simp add: fdt_read_paddr_def word_cat_eq_push_bit_or)

lemma fdt_read_paddr_short:
  "fdt_read_paddr plat [] 1 = Inl Read_past_end"
  "fdt_read_paddr plat [] 2 = Inl Read_past_end"
  "fdt_read_paddr ARM64 [c0] 2 = Inl Read_past_end"
  "fdt_read_paddr ARM32 [0] 2 = Inl Read_past_end"
  by (simp_all add: fdt_read_paddr_def)

lemma fdt_read_paddr_enough:
  assumes "n = 1 \<or> n = 2" and "nat n \<le> length cells"
  shows "fdt_read_paddr plat cells n =
     Inr (if n = 2 \<and> plat = ARM32 \<and> cells ! 0 \<noteq> 0 then paddr_minus_1 plat
          else nonzero_or_bad plat (spec_decoded_base plat cells n))"
proof -
  from assms(1) show ?thesis
  proof
    assume n: "n = 1"
    with assms(2) obtain c0 cs where "cells = c0 # cs" by (cases cells) auto
    with n show ?thesis by (simp add: fdt_read_paddr_1 spec_decoded_base_def)
  next
    assume n: "n = 2"
    with assms(2) obtain c0 cs' where c0: "cells = c0 # cs'" by (cases cells) auto
    with n assms(2) obtain c1 cs where "cs' = c1 # cs" by (cases cs') auto
    with c0 n show ?thesis
      by (cases plat)
        (simp_all add: fdt_read_paddr_2_ARM32 fdt_read_paddr_2_ARM64 spec_decoded_base_def)
  qed
qed

lemma fdt_read_paddr_too_short:
  assumes "n = 1 \<or> n = 2" and "length cells < nat n"
    and "\<not> (n = 2 \<and> plat = ARM32 \<and> cells \<noteq> [] \<and> cells ! 0 \<noteq> 0)"
  shows "fdt_read_paddr plat cells n = Inl Read_past_end"
proof (cases cells)
  case Nil
  with assms(1) show ?thesis by (auto simp: fdt_read_paddr_short)
next
  case (Cons c0 cs)
  with assms(1,2) have n: "n = 2" and cs: "cs = []" by auto
  show ?thesis
  proof (cases plat)
    case ARM32
    with assms(3) n Cons have "c0 = 0" by simp
    with ARM32 n Cons cs show ?thesis by (simp add: fdt_read_paddr_short)
  next
    case ARM64
    with n Cons cs show ?thesis by (simp add: fdt_read_paddr_short)
  qed
qed

text \<open>
  C4, as amended. \<open>_fdt_read_paddr\<close> returns \<open>(paddr_t)-1\<close> when \<open>n\<close> is not 1 or 2,
  when \<open>n = 2\<close> and the high-order word is nonzero on the 32-bit platform, and when
  the decoded base is zero. Otherwise, when the cells hold the \<open>n\<close> words, it returns
  the decoded base: the single word for \<open>n = 1\<close>, the low-order word (32-bit platform)
  or the high word followed by the low word as one 64-bit value (64-bit platform) for
  \<open>n = 2\<close>. The function does not know how many cells there are: when they are fewer
  than the words it reads, it reads past their end.
\<close>

theorem fdt_read_paddr_cases:
  "(n < 1 \<or> 2 < n \<longrightarrow> fdt_read_paddr plat cells n = Inr (paddr_minus_1 plat))
 \<and> (n = 2 \<and> plat = ARM32 \<and> cells \<noteq> [] \<and> cells ! 0 \<noteq> 0 \<longrightarrow>
      fdt_read_paddr plat cells n = Inr (paddr_minus_1 plat))
 \<and> ((n = 1 \<or> n = 2) \<and> nat n \<le> length cells \<and> spec_decoded_base plat cells n = 0 \<longrightarrow>
      fdt_read_paddr plat cells n = Inr (paddr_minus_1 plat))
 \<and> ((n = 1 \<or> n = 2) \<and> nat n \<le> length cells
      \<and> \<not> (n = 2 \<and> plat = ARM32 \<and> cells ! 0 \<noteq> 0) \<and> spec_decoded_base plat cells n \<noteq> 0 \<longrightarrow>
      fdt_read_paddr plat cells n = Inr (spec_decoded_base plat cells n))
 \<and> ((n = 1 \<or> n = 2) \<and> length cells < nat n
      \<and> \<not> (n = 2 \<and> plat = ARM32 \<and> cells \<noteq> [] \<and> cells ! 0 \<noteq> 0) \<longrightarrow>
      fdt_read_paddr plat cells n = Inl Read_past_end)"
proof (intro conjI impI)
  assume "n < 1 \<or> 2 < n"
  then show "fdt_read_paddr plat cells n = Inr (paddr_minus_1 plat)"
    by (rule fdt_read_paddr_bad_n)
next
  assume a: "n = 2 \<and> plat = ARM32 \<and> cells \<noteq> [] \<and> cells ! 0 \<noteq> 0"
  then obtain c0 cs where "cells = c0 # cs" by (cases cells) auto
  with a show "fdt_read_paddr plat cells n = Inr (paddr_minus_1 plat)"
    by (simp add: fdt_read_paddr_2_ARM32_high)
next
  assume "(n = 1 \<or> n = 2) \<and> nat n \<le> length cells \<and> spec_decoded_base plat cells n = 0"
  then show "fdt_read_paddr plat cells n = Inr (paddr_minus_1 plat)"
    by (simp add: fdt_read_paddr_enough nonzero_or_bad_def)
next
  assume "(n = 1 \<or> n = 2) \<and> nat n \<le> length cells
      \<and> \<not> (n = 2 \<and> plat = ARM32 \<and> cells ! 0 \<noteq> 0) \<and> spec_decoded_base plat cells n \<noteq> 0"
  then show "fdt_read_paddr plat cells n = Inr (spec_decoded_base plat cells n)"
    by (auto simp add: fdt_read_paddr_enough nonzero_or_bad_def)
next
  assume "(n = 1 \<or> n = 2) \<and> length cells < nat n
      \<and> \<not> (n = 2 \<and> plat = ARM32 \<and> cells \<noteq> [] \<and> cells ! 0 \<noteq> 0)"
  then show "fdt_read_paddr plat cells n = Inl Read_past_end"
    using fdt_read_paddr_too_short [of n cells plat] by blast
qed

text \<open>C4, as amended, on the \<open>reg\<close> property of the UART and on shorter ones.\<close>

theorem fdt_read_paddr_cases_witness:
  "fdt_read_paddr ARM64 [0x0, 0x10000000, 0x0, 0x1000] 2 = Inr 0x10000000
 \<and> fdt_read_paddr ARM32 [0x0, 0x10000000, 0x0, 0x1000] 2 = Inr 0x10000000
 \<and> fdt_read_paddr ARM64 [0x1, 0x10000000] 2 = Inr 0x110000000
 \<and> fdt_read_paddr ARM32 [0x1, 0x10000000] 2 = Inr (paddr_minus_1 ARM32)
 \<and> fdt_read_paddr ARM32 [0x10000000] 1 = Inr 0x10000000
 \<and> fdt_read_paddr ARM32 [0x0] 1 = Inr (paddr_minus_1 ARM32)
 \<and> fdt_read_paddr ARM64 [0x10000000] 3 = Inr (paddr_minus_1 ARM64)
 \<and> fdt_read_paddr ARM64 [0x10000000] 2 = Inl Read_past_end"
  using fdt_read_paddr_cases [of 2 ARM64 "[0x0, 0x10000000, 0x0, 0x1000]"]
    fdt_read_paddr_cases [of 2 ARM32 "[0x0, 0x10000000, 0x0, 0x1000]"]
    fdt_read_paddr_cases [of 2 ARM64 "[0x1, 0x10000000]"]
    fdt_read_paddr_cases [of 2 ARM32 "[0x1, 0x10000000]"]
    fdt_read_paddr_cases [of 1 ARM32 "[0x10000000]"]
    fdt_read_paddr_cases [of 1 ARM32 "[0x0]"]
    fdt_read_paddr_cases [of 3 ARM64 "[0x10000000]"]
    fdt_read_paddr_cases [of 2 ARM64 "[0x10000000]"]
  by (simp add: spec_decoded_base_def word_cat_eq)

text \<open>
  C4 as stated fails: a decoded base with all bits set is none of the three failures,
  and yet the value returned is \<open>(paddr_t)-1\<close>, which the callers take for a failure.
  And with no cell to read, the function neither fails nor succeeds.
\<close>

theorem fdt_read_paddr_counterexample:
  "spec_decoded_base ARM32 [0xFFFFFFFF] 1 = 0xFFFFFFFF
 \<and> fdt_read_paddr ARM32 [0xFFFFFFFF] 1 = Inr (paddr_minus_1 ARM32)
 \<and> spec_decoded_base ARM64 [0xFFFFFFFF, 0xFFFFFFFF] 2 = 0xFFFFFFFFFFFFFFFF
 \<and> fdt_read_paddr ARM64 [0xFFFFFFFF, 0xFFFFFFFF] 2 = Inr (paddr_minus_1 ARM64)
 \<and> fdt_read_paddr ARM64 [] 1 = Inl Read_past_end"
  by (simp add: spec_decoded_base_def fdt_read_paddr_def nonzero_or_bad_def
      paddr_minus_1_def word_bits_def word_cat_eq)

subsection \<open>Resolving the size\<close>

lemma sint_32_cases:
  "sint (w :: 32 word) =
     (if unat w < 2147483648 then int (unat w) else int (unat w) - 4294967296)"
proof -
  define x where "x = uint w"
  have s: "sint w = (x + 2147483648) mod 4294967296 - 2147483648"
    using int_word_sint [of "uint w", where ?'a = 32] by (simp add: x_def)
  have b: "0 \<le> x" "x < 4294967296"
    using uint_lt2p [of w] by (simp_all add: x_def)
  have u: "int (unat w) = x" by (simp add: x_def)
  then have c: "(unat w < 2147483648) = (x < 2147483648)" by linarith
  show ?thesis
  proof (cases "x < 2147483648")
    case True
    with b have "(x + 2147483648) mod 4294967296 = x + 2147483648"
      by (simp add: mod_pos_pos_trivial)
    with s True u c show ?thesis by simp
  next
    case False
    with b have "(x + 2147483648 - 4294967296) mod 4294967296 = x + 2147483648 - 4294967296"
      by (simp add: mod_pos_pos_trivial)
    then have "(x + 2147483648) mod 4294967296 = x + 2147483648 - 4294967296"
      using minus_mod_self2 [of "x + 2147483648" 4294967296] by simp
    with s False u c show ?thesis by simp
  qed
qed

lemma ssize_of_paddr_minus_1: "ssize_of_paddr plat (paddr_minus_1 plat) = - 1"
  by (cases plat) (simp_all add: ssize_of_paddr_def paddr_minus_1_def word_bits_def)

lemma fdt_reg_size_no_parent:
  "fdt_parent_offset node < 0 \<Longrightarrow> fdt_reg_size plat node = Inr (- 1)"
  by (simp add: fdt_reg_size_def ssize_of_paddr_minus_1)

lemma fdt_reg_size_no_reg:
  "fdt_getprop_reg node = None \<Longrightarrow> fdt_reg_size plat node = Inr (- 1)"
  by (simp add: fdt_reg_size_def ssize_of_paddr_minus_1)

lemma fdt_reg_size_bad_cells:
  assumes "fdt_address_cells node < 1 \<or> 2 < fdt_address_cells node
         \<or> fdt_size_cells node < 1 \<or> 2 < fdt_size_cells node"
  shows "fdt_reg_size plat node = Inr (- 1)"
  using assms
  by (auto simp: fdt_reg_size_def Let_def ssize_of_paddr_minus_1 split: option.splits)

text \<open>With a parent, a \<open>reg\<close> property and cell counts in range, what is left is the reading.\<close>

lemma fdt_reg_size_reading:
  assumes "0 \<le> fdt_parent_offset node" and "fdt_getprop_reg node = Some cells"
    and "fdt_address_cells node = 1 \<or> fdt_address_cells node = 2"
    and "fdt_size_cells node = 1 \<or> fdt_size_cells node = 2"
  shows "fdt_reg_size plat node =
     (case drop (nat (fdt_address_cells node)) cells of
        [] \<Rightarrow> Inl Read_past_end
      | sz # rest \<Rightarrow>
          if fdt_size_cells node = 2 then
            (if sz \<noteq> 0 then Inr (- 1)
             else case rest of
               [] \<Rightarrow> Inl Read_past_end
             | sz' # _ \<Rightarrow> Inr (ssize_of_uint32 plat sz'))
          else Inr (ssize_of_uint32 plat sz))"
  using assms by (auto simp: fdt_reg_size_def Let_def)

lemma drop_Cons_nth:
  assumes "n < length xs"
  shows "drop n xs = xs ! n # drop (Suc n) xs"
  using assms by (simp add: Cons_nth_drop_Suc)

lemma fdt_reg_size_high_nonzero:
  assumes "0 \<le> fdt_parent_offset node" and "fdt_getprop_reg node = Some cells"
    and "fdt_address_cells node = 1 \<or> fdt_address_cells node = 2"
    and "fdt_size_cells node = 2"
    and "nat (fdt_address_cells node) < length cells"
    and "cells ! nat (fdt_address_cells node) \<noteq> 0"
  shows "fdt_reg_size plat node = Inr (- 1)"
  using assms fdt_reg_size_reading [of node cells plat]
    drop_Cons_nth [of "nat (fdt_address_cells node)" cells]
  by simp

lemma fdt_reg_size_enough:
  assumes "0 \<le> fdt_parent_offset node" and "fdt_getprop_reg node = Some cells"
    and "fdt_address_cells node = 1 \<or> fdt_address_cells node = 2"
    and "fdt_size_cells node = 1 \<or> fdt_size_cells node = 2"
    and "nat (fdt_address_cells node) + nat (fdt_size_cells node) \<le> length cells"
    and "\<not> (fdt_size_cells node = 2 \<and> cells ! nat (fdt_address_cells node) \<noteq> 0)"
  shows "fdt_reg_size plat node =
     Inr (ssize_of_uint32 plat
       (cells ! (nat (fdt_address_cells node) + nat (fdt_size_cells node) - 1)))"
proof -
  let ?a = "nat (fdt_address_cells node)"
  from assms(4,5) have a: "?a < length cells" by auto
  note d = drop_Cons_nth [OF a]
  from assms(4) show ?thesis
  proof
    assume s: "fdt_size_cells node = 1"
    with assms d show ?thesis
      using fdt_reg_size_reading [of node cells plat] by simp
  next
    assume s: "fdt_size_cells node = 2"
    with assms(5) have "Suc ?a < length cells" by simp
    from drop_Cons_nth [OF this] d s assms show ?thesis
      using fdt_reg_size_reading [of node cells plat] by simp
  qed
qed

lemma fdt_reg_size_too_short:
  assumes "0 \<le> fdt_parent_offset node" and "fdt_getprop_reg node = Some cells"
    and "fdt_address_cells node = 1 \<or> fdt_address_cells node = 2"
    and "fdt_size_cells node = 1 \<or> fdt_size_cells node = 2"
    and "length cells < nat (fdt_address_cells node) + nat (fdt_size_cells node)"
    and "\<not> (fdt_size_cells node = 2 \<and> nat (fdt_address_cells node) < length cells
           \<and> cells ! nat (fdt_address_cells node) \<noteq> 0)"
  shows "fdt_reg_size plat node = Inl Read_past_end"
proof (cases "nat (fdt_address_cells node) < length cells")
  case False
  then have "drop (nat (fdt_address_cells node)) cells = []" by simp
  with assms show ?thesis
    using fdt_reg_size_reading [of node cells plat] by simp
next
  case True
  with assms(4,5) have s: "fdt_size_cells node = 2"
    and l: "length cells = Suc (nat (fdt_address_cells node))" by auto
  from l have "drop (Suc (nat (fdt_address_cells node))) cells = []" by simp
  with drop_Cons_nth [OF True] s assms True show ?thesis
    using fdt_reg_size_reading [of node cells plat] by simp
qed

text \<open>
  On the 32-bit platform a size of \<open>0xFFFFFFFF\<close> is a failure of \<open>dt_map_dev\<close>.
\<close>

lemma big_size_node_fails_ARM32:
  "dt_map_dev ARM32 list_mapper big_size_node boot_world = (Inr (- 1), boot_world)"
  by (simp add: dt_map_dev_def fdt_get_status_def fdt_reg_base_address_def fdt_read_paddr_def
      nonzero_or_bad_def fdt_reg_size_def ssize_of_uint32_def big_size_node_def uart_node_def
      paddr_minus_1_values DT_STATUS_DISABLED_def DT_STATUS_OK_NSEC_def DT_STATUS_OK_SEC_def
      boot_world_def)

text \<open>
  C5, as amended. \<open>_fdt_reg_size\<close> returns \<open>-1\<close> when the parent or the \<open>reg\<close>
  property is missing, when the address-cell or the size-cell count is not 1 or 2,
  and when there are two size cells and the first word after the address cells is
  nonzero. Otherwise, when \<open>reg\<close> holds address cells plus size cells words, it
  returns the last size word converted to \<open>ssize_t\<close>: the value of the word on the
  64-bit platform; on the 32-bit platform the value of the word below \<open>0x80000000\<close>
  and that value minus \<open>0x100000000\<close>, a negative number, from there on. When \<open>reg\<close>
  is shorter than the words read, the function reads past its end.
\<close>

theorem fdt_reg_size_cases:
  "(fdt_parent_offset node < 0 \<or> fdt_getprop_reg node = None \<longrightarrow>
      fdt_reg_size plat node = Inr (- 1))
 \<and> (fdt_address_cells node < 1 \<or> 2 < fdt_address_cells node
      \<or> fdt_size_cells node < 1 \<or> 2 < fdt_size_cells node \<longrightarrow>
      fdt_reg_size plat node = Inr (- 1))
 \<and> (0 \<le> fdt_parent_offset node \<and> fdt_getprop_reg node = Some cells
      \<and> (fdt_address_cells node = 1 \<or> fdt_address_cells node = 2)
      \<and> fdt_size_cells node = 2
      \<and> nat (fdt_address_cells node) < length cells
      \<and> cells ! nat (fdt_address_cells node) \<noteq> 0 \<longrightarrow>
      fdt_reg_size plat node = Inr (- 1))
 \<and> (0 \<le> fdt_parent_offset node \<and> fdt_getprop_reg node = Some cells
      \<and> (fdt_address_cells node = 1 \<or> fdt_address_cells node = 2)
      \<and> (fdt_size_cells node = 1 \<or> fdt_size_cells node = 2)
      \<and> nat (fdt_address_cells node) + nat (fdt_size_cells node) \<le> length cells
      \<and> \<not> (fdt_size_cells node = 2 \<and> cells ! nat (fdt_address_cells node) \<noteq> 0) \<longrightarrow>
      fdt_reg_size plat node =
        Inr (ssize_of_uint32 plat
          (cells ! (nat (fdt_address_cells node) + nat (fdt_size_cells node) - 1))))
 \<and> (0 \<le> fdt_parent_offset node \<and> fdt_getprop_reg node = Some cells
      \<and> (fdt_address_cells node = 1 \<or> fdt_address_cells node = 2)
      \<and> (fdt_size_cells node = 1 \<or> fdt_size_cells node = 2)
      \<and> length cells < nat (fdt_address_cells node) + nat (fdt_size_cells node)
      \<and> \<not> (fdt_size_cells node = 2 \<and> nat (fdt_address_cells node) < length cells
             \<and> cells ! nat (fdt_address_cells node) \<noteq> 0) \<longrightarrow>
      fdt_reg_size plat node = Inl Read_past_end)
 \<and> ssize_of_uint32 ARM64 w = int (unat w)
 \<and> ssize_of_uint32 ARM32 w =
      (if unat w < 0x80000000 then int (unat w) else int (unat w) - 0x100000000)"
proof (intro conjI impI)
  assume "fdt_parent_offset node < 0 \<or> fdt_getprop_reg node = None"
  then show "fdt_reg_size plat node = Inr (- 1)"
    using fdt_reg_size_no_parent fdt_reg_size_no_reg by blast
next
  assume "fdt_address_cells node < 1 \<or> 2 < fdt_address_cells node
      \<or> fdt_size_cells node < 1 \<or> 2 < fdt_size_cells node"
  then show "fdt_reg_size plat node = Inr (- 1)"
    by (rule fdt_reg_size_bad_cells)
next
  assume "0 \<le> fdt_parent_offset node \<and> fdt_getprop_reg node = Some cells
      \<and> (fdt_address_cells node = 1 \<or> fdt_address_cells node = 2)
      \<and> fdt_size_cells node = 2
      \<and> nat (fdt_address_cells node) < length cells
      \<and> cells ! nat (fdt_address_cells node) \<noteq> 0"
  then show "fdt_reg_size plat node = Inr (- 1)"
    using fdt_reg_size_high_nonzero [of node cells plat] by blast
next
  assume "0 \<le> fdt_parent_offset node \<and> fdt_getprop_reg node = Some cells
      \<and> (fdt_address_cells node = 1 \<or> fdt_address_cells node = 2)
      \<and> (fdt_size_cells node = 1 \<or> fdt_size_cells node = 2)
      \<and> nat (fdt_address_cells node) + nat (fdt_size_cells node) \<le> length cells
      \<and> \<not> (fdt_size_cells node = 2 \<and> cells ! nat (fdt_address_cells node) \<noteq> 0)"
  then show "fdt_reg_size plat node =
        Inr (ssize_of_uint32 plat
          (cells ! (nat (fdt_address_cells node) + nat (fdt_size_cells node) - 1)))"
    using fdt_reg_size_enough [of node cells plat] by blast
next
  assume "0 \<le> fdt_parent_offset node \<and> fdt_getprop_reg node = Some cells
      \<and> (fdt_address_cells node = 1 \<or> fdt_address_cells node = 2)
      \<and> (fdt_size_cells node = 1 \<or> fdt_size_cells node = 2)
      \<and> length cells < nat (fdt_address_cells node) + nat (fdt_size_cells node)
      \<and> \<not> (fdt_size_cells node = 2 \<and> nat (fdt_address_cells node) < length cells
             \<and> cells ! nat (fdt_address_cells node) \<noteq> 0)"
  then show "fdt_reg_size plat node = Inl Read_past_end"
    using fdt_reg_size_too_short [of node cells plat] by blast
next
  show "ssize_of_uint32 ARM64 w = int (unat w)"
    by (simp add: ssize_of_uint32_def)
next
  show "ssize_of_uint32 ARM32 w =
      (if unat w < 0x80000000 then int (unat w) else int (unat w) - 0x100000000)"
    using sint_32_cases [of w] by (simp add: ssize_of_uint32_def)
qed

text \<open>C5, as amended, at the UART and at variations of it.\<close>

theorem fdt_reg_size_cases_witness:
  "fdt_reg_size ARM64 uart_node = Inr 0x1000
 \<and> fdt_reg_size ARM32 uart_node = Inr 0x1000
 \<and> fdt_reg_size ARM64 (uart_node\<lparr>fdt_parent_offset := - 1\<rparr>) = Inr (- 1)
 \<and> fdt_reg_size ARM64 (uart_node\<lparr>fdt_size_cells := 3\<rparr>) = Inr (- 1)
 \<and> fdt_reg_size ARM64 (uart_node\<lparr>fdt_getprop_reg := Some [0x0, 0x10000000, 0x1, 0x0]\<rparr>) = Inr (- 1)
 \<and> fdt_reg_size ARM64 big_size_node = Inr 0xFFFFFFFF
 \<and> fdt_reg_size ARM64 short_reg_node = Inl Read_past_end"
  using
    fdt_reg_size_cases [where node = uart_node and plat = ARM64
      and cells = "[0x0, 0x10000000, 0x0, 0x1000]"]
    fdt_reg_size_cases [where node = uart_node and plat = ARM32
      and cells = "[0x0, 0x10000000, 0x0, 0x1000]" and w = "0x1000"]
    fdt_reg_size_cases [where node = "uart_node\<lparr>fdt_parent_offset := - 1\<rparr>" and plat = ARM64]
    fdt_reg_size_cases [where node = "uart_node\<lparr>fdt_size_cells := 3\<rparr>" and plat = ARM64]
    fdt_reg_size_cases [where plat = ARM64
      and node = "uart_node\<lparr>fdt_getprop_reg := Some [0x0, 0x10000000, 0x1, 0x0]\<rparr>"
      and cells = "[0x0, 0x10000000, 0x1, 0x0]"]
    fdt_reg_size_cases [where node = big_size_node and plat = ARM64
      and cells = "[0x0, 0x10000000, 0x0, 0xFFFFFFFF]" and w = "0xFFFFFFFF"]
    fdt_reg_size_cases [where node = short_reg_node and plat = ARM64
      and cells = "[0x0, 0x10000000, 0x0]"]
  by (simp add: uart_node_def big_size_node_def short_reg_node_def)

text \<open>
  C5 as stated fails. On the 32-bit platform the size word \<open>0xFFFFFFFF\<close> comes back
  as \<open>-1\<close>, the value of a failure, although none of the listed failures holds; and a
  \<open>reg\<close> property of three cells under two address cells and two size cells has no
  low size word to return.
\<close>

theorem fdt_reg_size_counterexample:
  "0 \<le> fdt_parent_offset big_size_node
 \<and> fdt_getprop_reg big_size_node = Some [0x0, 0x10000000, 0x0, 0xFFFFFFFF]
 \<and> fdt_address_cells big_size_node = 2 \<and> fdt_size_cells big_size_node = 2
 \<and> fdt_reg_size ARM32 big_size_node = Inr (- 1)
 \<and> 0 \<le> fdt_parent_offset short_reg_node
 \<and> fdt_getprop_reg short_reg_node = Some [0x0, 0x10000000, 0x0]
 \<and> fdt_address_cells short_reg_node = 2 \<and> fdt_size_cells short_reg_node = 2
 \<and> fdt_reg_size ARM64 short_reg_node = Inl Read_past_end"
  by (simp add: fdt_reg_size_def ssize_of_uint32_def big_size_node_def short_reg_node_def
      uart_node_def)

subsection \<open>The status strings\<close>

text \<open>
  C2 fails on the code. \<open>strncmp\<close> is bounded by the length of the property, so a
  property shorter than the literal is only compared over its own length: the empty
  value, \<open>o\<close> and \<open>oka\<close> are accepted by \<open>is_okay\<close>, and a node whose \<open>status\<close> holds
  the single byte \<open>o\<close> gets the non-secure flag.
\<close>

theorem fdt_get_status_accepts_prefix:
  "is_okay [] 0 = Inr True
 \<and> is_okay ''o'' 1 = Inr True
 \<and> is_okay ''oka'' 3 = Inr True
 \<and> fdt_getprop_status prefix_status_node = Some ''o''
 \<and> fdt_get_status prefix_status_node = Inr DT_STATUS_OK_NSEC"
  by (simp add: fdt_get_status_def is_okay_def lit_ok_def lit_okay_def prefix_status_node_def
      uart_node_def disabled_bytes_def DT_STATUS_OK_NSEC_def DT_STATUS_OK_SEC_def numeral_3_eq_3)

text \<open>
  C3 fails on the code for the same reason: a \<open>secure-status\<close> that is present and
  empty sets the secure flag, here beside \<open>status = "disabled"\<close>.
\<close>

theorem fdt_get_status_secure_accepts_empty:
  "fdt_getprop_secure_status empty_secure_status_node = Some []
 \<and> fdt_getprop_status empty_secure_status_node = Some disabled_bytes
 \<and> fdt_get_status empty_secure_status_node = Inr DT_STATUS_OK_SEC"
  by (simp add: fdt_get_status_def is_okay_def lit_ok_def lit_okay_def
      empty_secure_status_node_def uart_node_def disabled_bytes_def
      DT_STATUS_OK_NSEC_def DT_STATUS_OK_SEC_def)

subsection \<open>Finding a driver\<close>

text \<open>
  A match table that is not \<open>NULL\<close> is left only through a match: without one the
  loop runs past the end of the table. So \<open>NULL\<close> comes back only from a registry in
  which every \<open>match_table\<close> is \<open>NULL\<close>.
\<close>

lemma match_loop_no_match:
  "\<forall>dm \<in> set ms. chk (compatible dm) \<noteq> 0 \<Longrightarrow> match_loop chk (Some ms) = Inl Read_past_end"
  by (induction ms) auto

lemma match_loop_match:
  "\<exists>dm \<in> set ms. chk (compatible dm) = 0 \<Longrightarrow> match_loop chk (Some ms) = Inr True"
  by (induction ms) auto

lemma match_loop_False_iff: "(match_loop chk tbl = Inr False) = (tbl = None)"
proof (cases tbl)
  case None
  then show ?thesis by simp
next
  case (Some ms)
  have "match_loop chk (Some ms) \<noteq> Inr False" by (induction ms) auto
  with Some show ?thesis by simp
qed

lemma dt_find_compatible_driver_not_found_iff:
  "(dt_find_compatible_driver drvs node = Inr None) = (\<forall>drv \<in> set drvs. match_table drv = None)"
proof (induction drvs)
  case Nil
  then show ?case by simp
next
  case (Cons drv drvs)
  show ?case
  proof (cases "match_loop (fdt_node_check_compatible node) (match_table drv)")
    case (Inl a)
    then have "match_table drv \<noteq> None" by (cases "match_table drv") auto
    with Inl show ?thesis by simp
  next
    case (Inr b)
    show ?thesis
    proof (cases b)
      case True
      with Inr have "match_table drv \<noteq> None" by (cases "match_table drv") auto
      with Inr True show ?thesis by simp
    next
      case False
      with Inr have "match_table drv = None" by (simp add: match_loop_False_iff)
      with Inr False Cons.IH show ?thesis by simp
    qed
  qed
qed

text \<open>
  C6 fails on the code. The UART node is compatible with the pattern of the UART
  driver. Registered first, that driver is found; registered behind the interrupt
  controller's driver, it is never reached, because the loop over the first match
  table does not stop at the table's end.
\<close>

theorem dt_find_compatible_driver_second_unreached:
  "fdt_node_check_compatible uart_node (Some ''arm,pl011'') = 0
 \<and> dt_find_compatible_driver [uart_driver, gic_driver] uart_node = Inr (Some uart_driver)
 \<and> dt_find_compatible_driver [gic_driver, uart_driver] uart_node = Inl Read_past_end"
  by (simp add: uart_node_def uart_driver_def gic_driver_def)

text \<open>
  C7 fails on the code. With a registry of one driver whose patterns do not match
  the node, the scan does not end with \<open>NULL\<close>: it passes the closing entry and reads
  on behind the table.
\<close>

theorem dt_find_compatible_driver_no_match_past_end:
  "fdt_node_check_compatible uart_node (Some ''arm,gic-400'') \<noteq> 0
 \<and> fdt_node_check_compatible uart_node None \<noteq> 0
 \<and> dt_find_compatible_driver [gic_driver] uart_node = Inl Read_past_end"
  by (simp add: uart_node_def gic_driver_def)

end
